theory Spec2Isabelle
  imports Complex_Main
begin

section \<open>The trading simulator (Simulator\_Trading.py) as HOL functions\<close>

text \<open>
  The class \<^verbatim>\<open>TradingSimulatorTk\<close> keeps its simulation state in attributes of
  \<^verbatim>\<open>self\<close>; the model passes that state explicitly as a record. Every call of the
  random module is a parameter of the function that makes it, so that a theorem about
  the function holds for every value that could be drawn.

  Arithmetic is exact: a finite float is modelled as the real number it denotes.
  Prices and candles are computed from finite values only and are reals. The quantity
  of a trade is a float the user types, which may be \<^verbatim>\<open>nan\<close> or \<^verbatim>\<open>inf\<close>, and the
  balances are computed from it: both have the type \<open>pyfloat\<close> below.
\<close>

subsection \<open>Floats that may be infinite or not a number\<close>

datatype pyfloat = Num real | PosInf | NegInf | NaN

text \<open>
  Negation, \<^verbatim>\<open>+\<close>, \<^verbatim>\<open>-\<close>, \<^verbatim>\<open>*\<close>, \<^verbatim>\<open><=\<close> and \<^verbatim>\<open>>\<close> of floats. An operation on
  \<^verbatim>\<open>nan\<close> gives \<^verbatim>\<open>nan\<close>, as do \<^verbatim>\<open>inf - inf\<close> and \<^verbatim>\<open>inf * 0\<close>; every comparison
  with \<^verbatim>\<open>nan\<close> is false.
\<close>

fun f_neg :: "pyfloat \<Rightarrow> pyfloat" where
  "f_neg (Num a) = Num (- a)"
| "f_neg PosInf = NegInf"
| "f_neg NegInf = PosInf"
| "f_neg NaN = NaN"

fun f_add :: "pyfloat \<Rightarrow> pyfloat \<Rightarrow> pyfloat" where
  "f_add (Num a) (Num b) = Num (a + b)"
| "f_add NaN y = NaN"
| "f_add x NaN = NaN"
| "f_add PosInf NegInf = NaN"
| "f_add NegInf PosInf = NaN"
| "f_add PosInf y = PosInf"
| "f_add x PosInf = PosInf"
| "f_add NegInf y = NegInf"
| "f_add x NegInf = NegInf"

definition f_sub :: "pyfloat \<Rightarrow> pyfloat \<Rightarrow> pyfloat" where
  "f_sub x y = f_add x (f_neg y)"

fun f_mul :: "pyfloat \<Rightarrow> pyfloat \<Rightarrow> pyfloat" where
  "f_mul (Num a) (Num b) = Num (a * b)"
| "f_mul NaN y = NaN"
| "f_mul x NaN = NaN"
| "f_mul PosInf (Num b) = (if b = 0 then NaN else if 0 < b then PosInf else NegInf)"
| "f_mul NegInf (Num b) = (if b = 0 then NaN else if 0 < b then NegInf else PosInf)"
| "f_mul (Num a) PosInf = (if a = 0 then NaN else if 0 < a then PosInf else NegInf)"
| "f_mul (Num a) NegInf = (if a = 0 then NaN else if 0 < a then NegInf else PosInf)"
| "f_mul PosInf PosInf = PosInf"
| "f_mul NegInf NegInf = PosInf"
| "f_mul PosInf NegInf = NegInf"
| "f_mul NegInf PosInf = NegInf"

fun f_le :: "pyfloat \<Rightarrow> pyfloat \<Rightarrow> bool" where
  "f_le (Num a) (Num b) = (a \<le> b)"
| "f_le NaN y = False"
| "f_le x NaN = False"
| "f_le NegInf y = True"
| "f_le x PosInf = True"
| "f_le PosInf y = False"
| "f_le x NegInf = False"

fun f_gt :: "pyfloat \<Rightarrow> pyfloat \<Rightarrow> bool" where
  "f_gt (Num a) (Num b) = (a > b)"
| "f_gt NaN y = False"
| "f_gt x NaN = False"
| "f_gt PosInf PosInf = False"
| "f_gt PosInf y = True"
| "f_gt NegInf y = False"
| "f_gt (Num a) NegInf = True"
| "f_gt (Num a) PosInf = False"

subsection \<open>Python's \<^verbatim>\<open>round(x, ndigits)\<close>\<close>

text \<open>
  \<^verbatim>\<open>round(x, n)\<close> returns the multiple of \<open>10\<^sup>-\<^sup>n\<close> nearest to \<open>x\<close>; a value
  exactly half way between two multiples goes to the even one.
\<close>

definition round_half_even :: "real \<Rightarrow> int" where
  "round_half_even y =
     (let f = \<lfloor>y\<rfloor>; d = y - of_int f
      in if d < 1 / 2 then f
         else if 1 / 2 < d then f + 1
         else if even f then f else f + 1)"

definition py_round :: "real \<Rightarrow> nat \<Rightarrow> real" where
  "py_round x ndigits = of_int (round_half_even (x * 10 ^ ndigits)) / 10 ^ ndigits"

subsection \<open>State\<close>

text \<open>
  A candle is the dictionary built in \<^verbatim>\<open>_append_new_candle\<close>; its keys are the
  fields of the record, and the colour is the hexadecimal string stored under
  \<^verbatim>\<open>"color"\<close>.
\<close>

record candle =
  c_open :: real
  c_high :: real
  c_low :: real
  c_close :: real
  c_color :: string

definition GREEN :: string where "GREEN = ''#22c55e''"
definition RED :: string where "RED = ''#ef4444''"

text \<open>
  \<^verbatim>\<open>order_msg_var\<close> holds a formatted text; the model keeps the two numbers it is
  formatted from.
\<close>

datatype order_msg = No_order | Comprado pyfloat pyfloat | Vendido pyfloat pyfloat

record sim =
  balance_usd :: pyfloat
  balance_eth :: pyfloat
  current_price :: real
  prev_price :: "real option"
  candles :: "candle list"
  order_msg :: order_msg

text \<open>The class constants.\<close>

definition WIDTH :: int where "WIDTH = 1550"
definition HEIGHT :: int where "HEIGHT = 800"
definition INITIAL_USD :: real where "INITIAL_USD = 10000"
definition INITIAL_ETH :: real where "INITIAL_ETH = 0"
definition CHART_LEFT_PAD :: int where "CHART_LEFT_PAD = 60"
definition CHART_RIGHT_PAD :: int where "CHART_RIGHT_PAD = 40"
definition CHART_TOP_PAD :: int where "CHART_TOP_PAD = 80"
definition CHART_BOTTOM_PAD :: int where "CHART_BOTTOM_PAD = 160"
definition CANDLE_WIDTH :: int where "CANDLE_WIDTH = 12"
definition CANDLE_GAP :: int where "CANDLE_GAP = 4"

text \<open>\<^verbatim>\<open>_build_chart\<close>: the size of the canvas.\<close>

definition chart_w :: int where
  "chart_w = WIDTH - CHART_LEFT_PAD - CHART_RIGHT_PAD"

definition chart_h :: int where
  "chart_h = HEIGHT - CHART_TOP_PAD - CHART_BOTTOM_PAD"

text \<open>
  The attributes set by \<^verbatim>\<open>__init__\<close> before the first candle is appended.
  \<^verbatim>\<open>prev_price\<close> does not exist until the first price step.
\<close>

definition init_state :: sim where
  "init_state =
     \<lparr>balance_usd = Num INITIAL_USD, balance_eth = Num INITIAL_ETH, current_price = 3500,
      prev_price = None, candles = [], order_msg = No_order\<rparr>"

subsection \<open>Price process and candle aggregation\<close>

text \<open>
  \<^verbatim>\<open>_simulate_next_price\<close>; \<open>pct_change\<close> is the value returned by
  \<^verbatim>\<open>random.gauss(DRIFT, VOLATILITY)\<close>.
\<close>

definition simulate_next_price :: "real \<Rightarrow> sim \<Rightarrow> sim" where
  "simulate_next_price pct_change s =
     (let new_price = max 1 (current_price s * (1 + pct_change))
      in s\<lparr>prev_price := Some (current_price s), current_price := py_round new_price 2\<rparr>)"

text \<open>
  \<^verbatim>\<open>_append_new_candle\<close>; \<open>opn\<close> and \<open>cls\<close> are the source's \<^verbatim>\<open>o\<close> and
  \<^verbatim>\<open>c\<close>. \<open>jitter\<close> is the value of
  \<^verbatim>\<open>random.uniform(-0.001, 0.001)\<close> (read only in the first branch), \<open>wick_hi\<close> and
  \<open>wick_lo\<close> are the two values of \<^verbatim>\<open>random.gauss(0, 0.0015)\<close>, in the order of the
  calls.
\<close>

definition append_new_candle :: "bool \<Rightarrow> real \<Rightarrow> real \<Rightarrow> real \<Rightarrow> sim \<Rightarrow> sim" where
  "append_new_candle initial jitter wick_hi wick_lo s =
     (let (opn, cls) =
            (if initial \<or> candles s = []
             then (current_price s * (1 + jitter), current_price s)
             else (c_close (last (candles s)), current_price s));
          high = max opn cls * (1 + \<bar>wick_hi\<bar>);
          low = min opn cls * (1 - \<bar>wick_lo\<bar>);
          color = (if cls \<ge> opn then GREEN else RED);
          cndl = \<lparr>c_open = py_round opn 2, c_high = py_round high 2,
                  c_low = py_round low 2, c_close = py_round cls 2, c_color = color\<rparr>
      in s\<lparr>candles := candles s @ [cndl]\<rparr>)"

text \<open>
  The random values one call of \<^verbatim>\<open>_tick\<close> consumes. \<^verbatim>\<open>_draw_chart\<close> and
  \<^verbatim>\<open>_refresh_info_labels\<close> only paint, they change nothing of the state modelled here.
\<close>

record draws =
  d_pct :: real
  d_jitter :: real
  d_wick_hi :: real
  d_wick_lo :: real

definition tick :: "draws \<Rightarrow> sim \<Rightarrow> sim" where
  "tick d s =
     append_new_candle False (d_jitter d) (d_wick_hi d) (d_wick_lo d)
       (simulate_next_price (d_pct d) s)"

subsection \<open>Chart window and vertical scale\<close>

datatype py_error = ZeroDivisionError | ValueError

text \<open>
  The slice \<^verbatim>\<open>xs[k:]\<close>: a negative start counts from the end, and a start outside the
  list is moved to its nearest end.
\<close>

definition py_slice_from :: "int \<Rightarrow> 'a list \<Rightarrow> 'a list" where
  "py_slice_from k xs =
     (let len = int (length xs);
          start = (if k < 0 then max 0 (len + k) else min len k)
      in drop (nat start) xs)"

text \<open>
  \<^verbatim>\<open>_draw_chart\<close>, the choice of the candles to draw. \<open>w\<close> is \<^verbatim>\<open>self.chart_w\<close>
  and \<open>step\<close> is \<^verbatim>\<open>CANDLE_WIDTH + CANDLE_GAP\<close>; \<^verbatim>\<open>//\<close> is floor division and raises on
  a zero divisor.
\<close>

definition visible_candles :: "int \<Rightarrow> int \<Rightarrow> candle list \<Rightarrow> py_error + candle list" where
  "visible_candles w step cs =
     (if step = 0 then Inl ZeroDivisionError
      else let max_candles = max 1 (w div step)
           in Inr (py_slice_from (- max_candles) cs))"

text \<open>
  \<^verbatim>\<open>_draw_chart\<close>, the price interval of the vertical scale: the pair
  \<^verbatim>\<open>(top_price, bot_price)\<close>. \<^verbatim>\<open>max\<close> and \<^verbatim>\<open>min\<close> of an empty sequence raise.
\<close>

definition price_bounds :: "candle list \<Rightarrow> py_error + real \<times> real" where
  "price_bounds data =
     (if data = [] then Inl ValueError
      else let all_high = Max (set (map c_high data));
               all_low = Min (set (map c_low data));
               padding = max 1 ((all_high - all_low) * (1 / 10));
               top_price = all_high + padding;
               bot_price = max (1 / 10) (all_low - padding)
           in Inr (top_price, bot_price))"

text \<open>
  The inner function \<^verbatim>\<open>yfrom\<close>, with the variables it closes over as parameters:
  \<open>h\<close> is \<^verbatim>\<open>self.chart_h\<close>.
\<close>

definition yfrom :: "real \<Rightarrow> real \<Rightarrow> real \<Rightarrow> real \<Rightarrow> py_error + real" where
  "yfrom h top_price bot_price price =
     (if top_price - bot_price = 0 then Inl ZeroDivisionError
      else let norm = (price - bot_price) / (top_price - bot_price)
           in Inr (h - norm * h))"

text \<open>
  \<^verbatim>\<open>_draw_chart\<close> up to the scale: nothing is drawn (\<open>None\<close>) while there is no
  candle, otherwise the candles to draw and the two bounds.
\<close>

definition chart_scale ::
  "int \<Rightarrow> int \<Rightarrow> candle list \<Rightarrow> py_error + (candle list \<times> real \<times> real) option" where
  "chart_scale w step cs =
     (if cs = [] then Inr None
      else case visible_candles w step cs of
             Inl e \<Rightarrow> Inl e
           | Inr data \<Rightarrow>
               (case price_bounds data of
                  Inl e \<Rightarrow> Inl e
                | Inr (top_price, bot_price) \<Rightarrow> Inr (Some (data, top_price, bot_price))))"

definition draw_chart :: "sim \<Rightarrow> py_error + (candle list \<times> real \<times> real) option" where
  "draw_chart s = chart_scale chart_w (CANDLE_WIDTH + CANDLE_GAP) (candles s)"

subsection \<open>Trading\<close>

text \<open>The two message boxes, named by their titles.\<close>

datatype dialog = Quantidade_invalida | Saldo_insuficiente

text \<open>
  \<^verbatim>\<open>_parse_qty\<close>. The argument is the result of \<^verbatim>\<open>float(self.qty_var.get())\<close>:
  \<open>None\<close> when the text is no number and \<^verbatim>\<open>float\<close> raises, otherwise the float
  read, which is \<open>NaN\<close> for the text \<^verbatim>\<open>nan\<close> and \<open>PosInf\<close> for \<^verbatim>\<open>inf\<close>. The result is
  the quantity returned and the message box shown, if any.
\<close>

definition parse_qty :: "pyfloat option \<Rightarrow> pyfloat \<times> dialog option" where
  "parse_qty txt =
     (case txt of
        None \<Rightarrow> (Num 0, Some Quantidade_invalida)
      | Some q \<Rightarrow>
          if f_le q (Num 0) then (Num 0, Some Quantidade_invalida) else (q, None))"

text \<open>
  \<^verbatim>\<open>_buy_eth\<close> and \<^verbatim>\<open>_sell_eth\<close>: the message box shown, if any, and the state
  afterwards.
\<close>

definition buy_eth :: "pyfloat option \<Rightarrow> sim \<Rightarrow> dialog option \<times> sim" where
  "buy_eth txt s =
     (let (qty, dlg) = parse_qty txt
      in if f_le qty (Num 0) then (dlg, s)
         else let cost = f_mul qty (Num (current_price s))
              in if f_gt cost (f_add (balance_usd s) (Num (1 / 10 ^ 9)))
                 then (Some Saldo_insuficiente, s)
                 else (None, s\<lparr>balance_usd := f_sub (balance_usd s) cost,
                                balance_eth := f_add (balance_eth s) qty,
                                order_msg := Comprado qty cost\<rparr>))"

definition sell_eth :: "pyfloat option \<Rightarrow> sim \<Rightarrow> dialog option \<times> sim" where
  "sell_eth txt s =
     (let (qty, dlg) = parse_qty txt
      in if f_le qty (Num 0) then (dlg, s)
         else if f_gt qty (f_add (balance_eth s) (Num (1 / 10 ^ 12)))
         then (Some Saldo_insuficiente, s)
         else let proceeds = f_mul qty (Num (current_price s))
              in (None, s\<lparr>balance_eth := f_sub (balance_eth s) qty,
                             balance_usd := f_add (balance_usd s) proceeds,
                             order_msg := Vendido qty proceeds\<rparr>))"

text \<open>\<^verbatim>\<open>_refresh_info_labels\<close>: the total value shown, in USD.\<close>

definition equity_usd :: "sim \<Rightarrow> pyfloat" where
  "equity_usd s = f_add (balance_usd s) (f_mul (balance_eth s) (Num (current_price s)))"

subsection \<open>Runs of the application\<close>

text \<open>
  \<^verbatim>\<open>__init__\<close> appends the first candle with \<^verbatim>\<open>initial=True\<close>. After that the
  event loop calls \<^verbatim>\<open>_tick\<close> once per period and \<^verbatim>\<open>_buy_eth\<close> or \<^verbatim>\<open>_sell_eth\<close>
  when a button is pressed, one call at a time.
\<close>

definition startup :: "draws \<Rightarrow> sim" where
  "startup d = append_new_candle True (d_jitter d) (d_wick_hi d) (d_wick_lo d) init_state"

datatype event = Tick draws | Buy "pyfloat option" | Sell "pyfloat option"

fun apply_event :: "event \<Rightarrow> sim \<Rightarrow> sim" where
  "apply_event (Tick d) s = tick d s"
| "apply_event (Buy txt) s = snd (buy_eth txt s)"
| "apply_event (Sell txt) s = snd (sell_eth txt s)"

fun run :: "sim \<Rightarrow> event list \<Rightarrow> sim" where
  "run s [] = s"
| "run s (e # es) = run (apply_event e s) es"

text \<open>\<^verbatim>\<open>random.uniform(-0.001, 0.001)\<close> returns a value of that interval.\<close>

definition jitter_ok :: "draws \<Rightarrow> bool" where
  "jitter_ok d = (- (1 / 1000) \<le> d_jitter d \<and> d_jitter d \<le> 1 / 1000)"

text \<open>The candle invariant of the data model.\<close>

definition candle_ok :: "candle \<Rightarrow> bool" where
  "candle_ok c =
     (c_low c \<le> min (c_open c) (c_close c) \<and> max (c_open c) (c_close c) \<le> c_high c)"

text \<open>
  What every state of a run satisfies: the price is at least 1, there is a candle, and
  every candle is ordered and closes at 1 or above.
\<close>

definition sim_inv :: "sim \<Rightarrow> bool" where
  "sim_inv s =
     (1 \<le> current_price s \<and> candles s \<noteq> [] \<and>
      list_all (\<lambda>c. candle_ok c \<and> 1 \<le> c_close c) (candles s))"

text \<open>
  The clamping step as the specification words it (the source has no such step): high
  and low are moved to the bounds of the body when they lie inside it.
\<close>

definition spec_clamp :: "candle \<Rightarrow> candle" where
  "spec_clamp c =
     c\<lparr>c_high := max (c_high c) (max (c_open c) (c_close c)),
       c_low := min (c_low c) (min (c_open c) (c_close c))\<rparr>"





text \<open>A flat candle at price \<open>p\<close>, for the examples.\<close>

definition ex_candle :: "real \<Rightarrow> candle" where
  "ex_candle p = \<lparr>c_open = p, c_high = p, c_low = p, c_close = p, c_color = GREEN\<rparr>"

section \<open>Rounding\<close>

lemma round_half_even_bounds:
  "\<lfloor>y\<rfloor> \<le> round_half_even y" "round_half_even y \<le> \<lfloor>y\<rfloor> + 1"
  by (simp_all add: round_half_even_def Let_def)

lemma round_half_even_mono:
  assumes "x \<le> y"
  shows "round_half_even x \<le> round_half_even y"
proof (cases "\<lfloor>x\<rfloor> = \<lfloor>y\<rfloor>")
  case True
  with assms have "x - of_int \<lfloor>x\<rfloor> \<le> y - of_int \<lfloor>y\<rfloor>" by simp
  with True show ?thesis
    by (auto simp: round_half_even_def Let_def)
next
  case False
  with assms have "\<lfloor>x\<rfloor> + 1 \<le> \<lfloor>y\<rfloor>"
    using floor_mono [of x y] by linarith
  with round_half_even_bounds(2) [of x] round_half_even_bounds(1) [of y]
  show ?thesis by linarith
qed

lemma round_half_even_of_int: "round_half_even (of_int k) = k"
  by (simp add: round_half_even_def)

lemma py_round_mono: "x \<le> y \<Longrightarrow> py_round x n \<le> py_round y n"
  by (simp add: py_round_def round_half_even_mono divide_right_mono)

lemma py_round_idem: "py_round (py_round x n) n = py_round x n"
  by (simp add: py_round_def round_half_even_of_int)

lemma py_round_of_int: "py_round (of_int k) n = of_int k"
proof -
  have "of_int k * (10::real) ^ n = of_int (k * 10 ^ n)" by simp
  then show ?thesis
    unfolding py_round_def by (simp only: round_half_even_of_int) simp
qed

lemma py_round_one: "py_round 1 n = 1"
  using py_round_of_int [of 1 n] by simp

lemma py_round_ge_one: "1 \<le> x \<Longrightarrow> 1 \<le> py_round x n"
  using py_round_mono [of 1 x n] by (simp add: py_round_one)

lemma py_round_max: "py_round (max a b) n = max (py_round a n) (py_round b n)"
  using py_round_mono [of a b n] py_round_mono [of b a n] by (auto simp: max_def)

lemma py_round_min: "py_round (min a b) n = min (py_round a n) (py_round b n)"
  using py_round_mono [of a b n] py_round_mono [of b a n] by (auto simp: min_def)

text \<open>The wick factors move a nonnegative body bound outwards, also after rounding.\<close>

lemma wick_high: "0 \<le> a \<Longrightarrow> py_round a n \<le> py_round (a * (1 + \<bar>g\<bar>)) n"
proof (rule py_round_mono)
  assume "0 \<le> a"
  then have "a * 1 \<le> a * (1 + \<bar>g\<bar>)" by (intro mult_left_mono) simp_all
  then show "a \<le> a * (1 + \<bar>g\<bar>)" by simp
qed

lemma wick_low: "0 \<le> a \<Longrightarrow> py_round (a * (1 - \<bar>g\<bar>)) n \<le> py_round a n"
proof (rule py_round_mono)
  assume "0 \<le> a"
  then have "a * (1 - \<bar>g\<bar>) \<le> a * 1" by (intro mult_left_mono) simp_all
  then show "a * (1 - \<bar>g\<bar>) \<le> a" by simp
qed

section \<open>Candles\<close>

lemma append_new_candle_appends:
  assumes "initial \<or> candles s = [] \<Longrightarrow> - 1 \<le> jitter"
    and "\<not> initial \<Longrightarrow> candles s \<noteq> [] \<Longrightarrow> 0 \<le> c_close (last (candles s))"
    and "0 \<le> current_price s"
  shows "\<exists>c. append_new_candle initial jitter wh wl s = s\<lparr>candles := candles s @ [c]\<rparr>
           \<and> candle_ok c \<and> c_close c = py_round (current_price s) 2"
proof -
  define opn where
    "opn = (if initial \<or> candles s = [] then current_price s * (1 + jitter)
            else c_close (last (candles s)))"
  define cls where "cls = current_price s"
  have "0 \<le> opn"
  proof (cases "initial \<or> candles s = []")
    case True
    with assms(1) have "0 \<le> 1 + jitter" by simp
    with assms(3) True show ?thesis by (simp add: opn_def)
  next
    case False
    with assms(2) show ?thesis by (simp add: opn_def)
  qed
  moreover have "0 \<le> cls" using assms(3) by (simp add: cls_def)
  ultimately have "0 \<le> max opn cls" "0 \<le> min opn cls" by simp_all
  then have "py_round (max opn cls) 2 \<le> py_round (max opn cls * (1 + \<bar>wh\<bar>)) 2"
    and "py_round (min opn cls * (1 - \<bar>wl\<bar>)) 2 \<le> py_round (min opn cls) 2"
    by (simp_all only: wick_high wick_low)
  then have "candle_ok \<lparr>c_open = py_round opn 2, c_high = py_round (max opn cls * (1 + \<bar>wh\<bar>)) 2,
       c_low = py_round (min opn cls * (1 - \<bar>wl\<bar>)) 2, c_close = py_round cls 2,
       c_color = (if opn \<le> cls then GREEN else RED)\<rparr>"
    by (simp add: candle_ok_def py_round_max py_round_min)
  then show ?thesis
    by (auto simp: append_new_candle_def Let_def opn_def cls_def)
qed

lemma simulate_next_price_ge_one: "1 \<le> current_price (simulate_next_price pct s)"
  by (simp add: simulate_next_price_def py_round_ge_one)

lemma simulate_next_price_candles: "candles (simulate_next_price pct s) = candles s"
  by (simp add: simulate_next_price_def)

lemma sim_inv_startup: "jitter_ok d \<Longrightarrow> sim_inv (startup d)"
proof -
  assume "jitter_ok d"
  then have "- 1 \<le> d_jitter d" by (simp add: jitter_ok_def)
  then obtain c where c: "startup d = init_state\<lparr>candles := candles init_state @ [c]\<rparr>"
      "candle_ok c" "c_close c = py_round (current_price init_state) 2"
    unfolding startup_def
    using append_new_candle_appends [of True init_state "d_jitter d" "d_wick_hi d" "d_wick_lo d"]
    by (auto simp: init_state_def)
  have "1 \<le> c_close c" unfolding c(3) by (rule py_round_ge_one) (simp add: init_state_def)
  with c show ?thesis by (simp add: sim_inv_def init_state_def)
qed

lemma sim_inv_tick: "sim_inv s \<Longrightarrow> sim_inv (tick d s)"
proof -
  assume inv: "sim_inv s"
  let ?t = "simulate_next_price (d_pct d) s"
  have p: "1 \<le> current_price ?t" by (rule simulate_next_price_ge_one)
  have cs: "candles ?t = candles s" by (rule simulate_next_price_candles)
  from inv have ne: "candles s \<noteq> []" and "1 \<le> c_close (last (candles s))"
    by (auto simp: sim_inv_def list_all_iff)
  then have "0 \<le> c_close (last (candles ?t))" "candles ?t \<noteq> []" by (simp_all add: cs)
  with p obtain c where c: "tick d s = ?t\<lparr>candles := candles ?t @ [c]\<rparr>"
      "candle_ok c" "c_close c = py_round (current_price ?t) 2"
    unfolding tick_def
    using append_new_candle_appends [of False ?t "d_jitter d" "d_wick_hi d" "d_wick_lo d"]
    by auto
  have "1 \<le> c_close c" unfolding c(3) using p by (rule py_round_ge_one)
  with c p inv show ?thesis by (simp add: sim_inv_def cs)
qed

lemma buy_eth_frame:
  "current_price (snd (buy_eth txt s)) = current_price s"
  "candles (snd (buy_eth txt s)) = candles s"
  by (simp_all add: buy_eth_def Let_def split: prod.splits)

lemma sell_eth_frame:
  "current_price (snd (sell_eth txt s)) = current_price s"
  "candles (snd (sell_eth txt s)) = candles s"
  by (simp_all add: sell_eth_def Let_def split: prod.splits)

lemma sim_inv_event: "sim_inv s \<Longrightarrow> sim_inv (apply_event e s)"
  by (cases e) (simp_all add: sim_inv_tick, simp_all add: sim_inv_def buy_eth_frame sell_eth_frame)

lemma sim_inv_run: "sim_inv s \<Longrightarrow> sim_inv (run s es)"
  by (induction es arbitrary: s) (simp_all add: sim_inv_event)

lemma spec_clamp_id: "candle_ok c \<Longrightarrow> spec_clamp c = c"
  by (simp add: candle_ok_def spec_clamp_def max_absorb1 min_absorb1)

text \<open>
  C1. Every candle of every run (the first one, appended at start-up, and each one a
  tick appends) is stored with \<open>low \<le> min open close\<close> and \<open>max open close \<le> high\<close>,
  the four fields being the rounded ones, and it is equal to its clamped form. The
  source has no clamping step: rounding is monotone and the wick factors are applied to
  nonnegative body bounds, so the rounded high and low never cross the rounded body.
\<close>

theorem candle_invariant:
  "jitter_ok d0 \<Longrightarrow>
     list_all (\<lambda>c. candle_ok c \<and> spec_clamp c = c) (candles (run (startup d0) es))"
proof -
  assume "jitter_ok d0"
  then have "sim_inv (run (startup d0) es)" by (intro sim_inv_run sim_inv_startup)
  then show ?thesis by (simp add: sim_inv_def list_all_iff spec_clamp_id)
qed

theorem candle_invariant_witness:
  "jitter_ok \<lparr>d_pct = 0, d_jitter = 1 / 2000, d_wick_hi = 1 / 500, d_wick_lo = - (1 / 1000)\<rparr>
   \<and> list_all (\<lambda>c. candle_ok c \<and> spec_clamp c = c)
        (candles (run (startup \<lparr>d_pct = 0, d_jitter = 1 / 2000, d_wick_hi = 1 / 500,
                                 d_wick_lo = - (1 / 1000)\<rparr>)
           [Tick \<lparr>d_pct = - (1 / 100), d_jitter = 0, d_wick_hi = - (3 / 1000),
                   d_wick_lo = 1 / 400\<rparr>, Buy (Some (Num (1 / 10)))]))"
proof -
  have j: "jitter_ok \<lparr>d_pct = 0, d_jitter = 1 / 2000, d_wick_hi = 1 / 500, d_wick_lo = - (1 / 1000)\<rparr>"
    by (simp add: jitter_ok_def)
  show ?thesis by (intro conjI j candle_invariant [OF j])
qed

text \<open>
  C2. The price step stores \<open>max 1 (p * (1 + pct_change))\<close> rounded to two decimals,
  and the stored price is at least 1, whatever the current price and the value drawn.
\<close>

theorem price_floor:
  "current_price (simulate_next_price pct_change s)
     = py_round (max 1 (current_price s * (1 + pct_change))) 2
   \<and> 1 \<le> current_price (simulate_next_price pct_change s)"
  using py_round_ge_one [of "max 1 (current_price s * (1 + pct_change))" 2]
  by (simp add: simulate_next_price_def)

section \<open>Chart window\<close>

lemma chart_w_val: "chart_w = 1450"
  by (simp add: chart_w_def WIDTH_def CHART_LEFT_PAD_def CHART_RIGHT_PAD_def)

lemma step_val: "CANDLE_WIDTH + CANDLE_GAP = 16"
  by (simp add: CANDLE_WIDTH_def CANDLE_GAP_def)

lemma py_slice_from_neg:
  assumes "0 < n"
  shows "py_slice_from (- n) xs = drop (length xs - nat n) xs"
proof -
  have "nat (max 0 (int (length xs) - n)) = length xs - nat n"
    using assms by linarith
  with assms show ?thesis by (simp add: py_slice_from_def Let_def)
qed

lemma visible_candles_eq:
  assumes "step \<noteq> 0"
  shows "visible_candles w step cs
           = Inr (drop (length cs - nat (max 1 (w div step))) cs)"
proof -
  have "0 < max 1 (w div step)" by simp
  then show ?thesis
    using assms by (simp only: visible_candles_def Let_def py_slice_from_neg if_False)
qed

lemma visible_candles_default:
  "visible_candles 1450 16 cs = Inr (drop (length cs - 90) cs)"
proof -
  have "nat (max 1 ((1450::int) div 16)) = 90" by simp
  then show ?thesis using visible_candles_eq [of 16 1450 cs] by simp
qed


text \<open>
  C3. The canvas is 1450 pixels wide and a candle takes 16. With these values and a
  history of at least 90 candles the window is the last 90 candles of the history, in
  the order of the history (the history is the older candles followed by the window).
  For every width and every nonzero step the window is the last
  \<open>min (max 1 (w div step)) (length history)\<close> candles.
\<close>

theorem window_size:
  "chart_w = 1450 \<and> CANDLE_WIDTH + CANDLE_GAP = 16
   \<and> (90 \<le> length cs \<longrightarrow>
        visible_candles 1450 16 cs = Inr (drop (length cs - 90) cs)
        \<and> take (length cs - 90) cs @ drop (length cs - 90) cs = cs
        \<and> length (drop (length cs - 90) cs) = 90)
   \<and> (step \<noteq> 0 \<longrightarrow>
        visible_candles w step cs
          = Inr (drop (length cs - min (nat (max 1 (w div step))) (length cs)) cs)
        \<and> length (drop (length cs - min (nat (max 1 (w div step))) (length cs)) cs)
          = min (nat (max 1 (w div step))) (length cs))"
proof (intro conjI impI)
  show "chart_w = 1450" by (rule chart_w_val)
  show "CANDLE_WIDTH + CANDLE_GAP = 16" by (rule step_val)
  show "visible_candles 1450 16 cs = Inr (drop (length cs - 90) cs)"
    by (rule visible_candles_default)
  show "take (length cs - 90) cs @ drop (length cs - 90) cs = cs"
    by (rule append_take_drop_id)
next
  assume "90 \<le> length cs"
  then show "length (drop (length cs - 90) cs) = 90" by simp
next
  define m where "m = nat (max 1 (w div step))"
  have d: "length cs - min m (length cs) = length cs - m" by linarith
  assume "step \<noteq> 0"
  then have "visible_candles w step cs = Inr (drop (length cs - m) cs)"
    unfolding m_def by (rule visible_candles_eq)
  then show "visible_candles w step cs
          = Inr (drop (length cs - min (nat (max 1 (w div step))) (length cs)) cs)"
    unfolding m_def [symmetric] d .
  show "length (drop (length cs - min (nat (max 1 (w div step))) (length cs)) cs)
          = min (nat (max 1 (w div step))) (length cs)"
    unfolding m_def [symmetric] length_drop by linarith
qed

theorem window_size_witness:
  "90 \<le> length (replicate 910 (ex_candle 1) @ ex_candle 2 # replicate 88 (ex_candle 3) @ [ex_candle 4])
   \<and> visible_candles 1450 16
       (replicate 910 (ex_candle 1) @ ex_candle 2 # replicate 88 (ex_candle 3) @ [ex_candle 4])
     = Inr (ex_candle 2 # replicate 88 (ex_candle 3) @ [ex_candle 4])
   \<and> (16::int) \<noteq> 0
   \<and> visible_candles 50 16 [ex_candle 1, ex_candle 2, ex_candle 3, ex_candle 4, ex_candle 5]
     = Inr [ex_candle 3, ex_candle 4, ex_candle 5]"
proof -
  let ?h = "replicate 910 (ex_candle 1) @ ex_candle 2 # replicate 88 (ex_candle 3) @ [ex_candle 4]"
  have len: "90 \<le> length ?h" by simp
  have "visible_candles 1450 16 ?h = Inr (drop (length ?h - 90) ?h)"
    using window_size [of ?h 16 50] len by blast
  also have "length ?h - 90 = 910" by simp
  also have "drop 910 ?h = ex_candle 2 # replicate 88 (ex_candle 3) @ [ex_candle 4]" by simp
  finally have a: "visible_candles 1450 16 ?h = Inr (ex_candle 2 # replicate 88 (ex_candle 3) @ [ex_candle 4])" .
  have "visible_candles 50 16 [ex_candle 1, ex_candle 2, ex_candle 3, ex_candle 4, ex_candle 5]
     = Inr [ex_candle 3, ex_candle 4, ex_candle 5]"
    using window_size [of "[ex_candle 1, ex_candle 2, ex_candle 3, ex_candle 4, ex_candle 5]" 16 50]
    by simp
  with a len show ?thesis by simp
qed

section \<open>Colour of a candle\<close>

text \<open>
  C4. The colour is chosen by comparing the unrounded open and close, and the candle
  stores the rounded ones. At start-up the open is the price moved by the jitter: with
  a jitter of \<open>10\<^sup>-\<^sup>6\<close> it is 3500.0035, above the close 3500, so the candle is red,
  and it rounds to 3500, so the stored close is not below the stored open.
\<close>

theorem first_candle_color_mismatch:
  "candles (startup \<lparr>d_pct = 0, d_jitter = 1 / 10 ^ 6, d_wick_hi = 0, d_wick_lo = 0\<rparr>)
     = [\<lparr>c_open = 3500, c_high = 3500, c_low = 3500, c_close = 3500, c_color = RED\<rparr>]
   \<and> RED \<noteq> GREEN
   \<and> jitter_ok \<lparr>d_pct = 0, d_jitter = 1 / 10 ^ 6, d_wick_hi = 0, d_wick_lo = 0\<rparr>"
  by (simp add: startup_def append_new_candle_def init_state_def py_round_def
      round_half_even_def Let_def RED_def GREEN_def jitter_ok_def)

text \<open>
  A tick opens the candle at the stored close of the previous one and closes it at the
  stored price; both are rounded already, and the colour agrees with the stored fields.
\<close>

lemma tick_color_consistent:
  assumes ne: "candles s \<noteq> []"
    and r: "c_close (last (candles s)) = py_round x 2"
  shows "c_color (last (candles (tick d s))) = GREEN
           \<longleftrightarrow> c_open (last (candles (tick d s))) \<le> c_close (last (candles (tick d s)))"
proof -
  let ?t = "simulate_next_price (d_pct d) s"
  have cs: "candles ?t = candles s" by (rule simulate_next_price_candles)
  obtain y where y: "current_price ?t = py_round y 2"
    by (simp add: simulate_next_price_def)
  have "RED \<noteq> GREEN" by (simp add: RED_def GREEN_def)
  then show ?thesis
    using ne by (simp add: tick_def append_new_candle_def cs Let_def r y py_round_idem)
qed


section \<open>Vertical scale\<close>

lemma price_bounds_ordered:
  assumes ne: "data \<noteq> []"
    and wf: "\<forall>c \<in> set data. c_low c \<le> c_high c \<and> 0 < c_high c"
  shows "\<exists>top_price bot_price. price_bounds data = Inr (top_price, bot_price) \<and> bot_price < top_price"
proof -
  define H where "H = Max (set (map c_high data))"
  define L where "L = Min (set (map c_low data))"
  define pad where "pad = max 1 ((H - L) * (1 / 10))"
  from ne obtain c where c: "c \<in> set data" by (cases data) auto
  then have "c_high c \<le> H" "L \<le> c_low c"
    by (simp_all add: H_def L_def)
  with wf c have HL: "L \<le> H" and Hpos: "0 < H"
    by (force, force)
  have pad: "1 \<le> pad" by (simp add: pad_def)
  have "L - pad < H + pad" using HL pad by linarith
  moreover have "1 / 10 < H + pad" using Hpos pad by linarith
  ultimately have "max (1 / 10) (L - pad) < H + pad" by simp
  moreover have "price_bounds data = Inr (H + pad, max (1 / 10) (L - pad))"
    using ne by (simp add: price_bounds_def Let_def H_def L_def pad_def)
  ultimately show ?thesis by blast
qed

lemma yfrom_defined: "bot_price < top_price \<Longrightarrow> \<exists>y. yfrom h top_price bot_price price = Inr y"
  by (simp add: yfrom_def Let_def)

text \<open>
  C5. For a window that is not empty, of candles whose low is not above their high and
  whose high is positive (what every candle of a run satisfies), the bounds exist and
  \<open>bot_price < top_price\<close>; the divisor of \<^verbatim>\<open>yfrom\<close> is not zero and \<^verbatim>\<open>yfrom\<close>
  returns a value for every price. The flat window at 100 is the example.
\<close>

theorem bounds_nonzero_span:
  assumes "data \<noteq> []"
    and "\<forall>c \<in> set data. c_low c \<le> c_high c \<and> 0 < c_high c"
  shows "\<exists>top_price bot_price. price_bounds data = Inr (top_price, bot_price) \<and> bot_price < top_price
           \<and> top_price - bot_price \<noteq> 0 \<and> (\<forall>h price. \<exists>y. yfrom h top_price bot_price price = Inr y)"
proof -
  from price_bounds_ordered [OF assms] obtain top_price bot_price
    where b: "price_bounds data = Inr (top_price, bot_price)" "bot_price < top_price" by blast
  then have "top_price - bot_price \<noteq> 0" by simp
  moreover from b(2) have "\<forall>h price. \<exists>y. yfrom h top_price bot_price price = Inr y"
    by (simp add: yfrom_defined)
  ultimately show ?thesis using b by blast
qed

theorem bounds_nonzero_span_witness:
  "[ex_candle 100, ex_candle 100, ex_candle 100] \<noteq> []
   \<and> c_low (ex_candle 100) \<le> c_high (ex_candle 100) \<and> 0 < c_high (ex_candle 100)
   \<and> price_bounds [ex_candle 100, ex_candle 100, ex_candle 100] = Inr (101, 99)
   \<and> yfrom 560 101 99 100 = Inr 280"
proof -
  have ne: "[ex_candle 100, ex_candle 100, ex_candle 100] \<noteq> []" by simp
  have c: "c_low (ex_candle 100) \<le> c_high (ex_candle 100)" "0 < c_high (ex_candle 100)"
    by (simp_all add: ex_candle_def)
  then have wf: "\<forall>c \<in> set [ex_candle 100, ex_candle 100, ex_candle 100].
      c_low c \<le> c_high c \<and> 0 < c_high c"
    by simp
  have v: "price_bounds [ex_candle 100, ex_candle 100, ex_candle 100] = Inr (101, 99)"
    by (simp add: price_bounds_def ex_candle_def Let_def)
  from bounds_nonzero_span [OF ne wf] v have "\<exists>y. yfrom 560 101 99 100 = Inr y" by auto
  moreover have "yfrom 560 101 99 100 = Inr 280" by (simp add: yfrom_def Let_def)
  ultimately show ?thesis using ne c v by blast
qed

text \<open>
  C6. With \<open>bot_price < top_price\<close> the top price is drawn at \<open>y = 0\<close> and the bottom
  price at \<open>y = h\<close>.
\<close>

theorem yfrom_endpoints:
  "bot_price < top_price \<Longrightarrow>
     yfrom h top_price bot_price top_price = Inr 0 \<and> yfrom h top_price bot_price bot_price = Inr h"
  by (simp add: yfrom_def Let_def)

theorem yfrom_endpoints_witness:
  "(3400::real) < 3600 \<and> yfrom 560 3600 3400 3600 = Inr 0 \<and> yfrom 560 3600 3400 3400 = Inr 560"
  using yfrom_endpoints [of 3400 3600 560] by simp

text \<open>In every run the chart is drawn with \<open>bot_price < top_price\<close>.\<close>

lemma reachable_chart:
  assumes "jitter_ok d0"
  shows "\<exists>data top_price bot_price. draw_chart (run (startup d0) es) = Inr (Some (data, top_price, bot_price)) \<and> bot_price < top_price"
proof -
  let ?s = "run (startup d0) es"
  from assms have inv: "sim_inv ?s" by (intro sim_inv_run sim_inv_startup)
  then have ne: "candles ?s \<noteq> []"
    and ok: "\<forall>c \<in> set (candles ?s). candle_ok c \<and> 1 \<le> c_close c"
    by (simp_all add: sim_inv_def list_all_iff)
  define data where "data = drop (length (candles ?s) - 90) (candles ?s)"
  have vis: "visible_candles chart_w (CANDLE_WIDTH + CANDLE_GAP) (candles ?s) = Inr data"
    unfolding data_def by (simp only: chart_w_val step_val visible_candles_default)
  from ne have "0 < length (candles ?s)" by simp
  then have "\<not> length (candles ?s) \<le> length (candles ?s) - 90" by linarith
  then have "data \<noteq> []" by (simp add: data_def)
  moreover have "\<forall>c \<in> set data. c_low c \<le> c_high c \<and> 0 < c_high c"
  proof
    fix c assume "c \<in> set data"
    then have "c \<in> set (candles ?s)" unfolding data_def by (rule in_set_dropD)
    with ok have "candle_ok c" "1 \<le> c_close c" by simp_all
    then show "c_low c \<le> c_high c \<and> 0 < c_high c" by (simp add: candle_ok_def)
  qed
  ultimately obtain top_price bot_price where "price_bounds data = Inr (top_price, bot_price)" "bot_price < top_price"
    using price_bounds_ordered by blast
  with vis ne show ?thesis by (simp add: draw_chart_def chart_scale_def)
qed

section \<open>Trading\<close>

lemma f_add_NaN: "f_add x NaN = NaN"
  by (cases x) simp_all

lemma f_sub_Num: "f_sub (Num a) (Num b) = Num (a - b)"
  by (simp add: f_sub_def)

lemma f_add_sub_cancel: "f_add (f_sub x (Num c)) (Num c) = x"
  by (cases x) (simp_all add: f_sub_def)

lemma f_sub_add_cancel: "f_sub (f_add x (Num c)) (Num c) = x"
  by (cases x) (simp_all add: f_sub_def)


lemma buy_eth_Num:
  "buy_eth (Some (Num q)) s =
     (if q \<le> 0 then (Some Quantidade_invalida, s)
      else if f_gt (Num (q * current_price s)) (f_add (balance_usd s) (Num (1 / 10 ^ 9)))
      then (Some Saldo_insuficiente, s)
      else (None, s\<lparr>balance_usd := f_sub (balance_usd s) (Num (q * current_price s)),
                     balance_eth := f_add (balance_eth s) (Num q),
                     order_msg := Comprado (Num q) (Num (q * current_price s))\<rparr>))"
  by (simp add: buy_eth_def parse_qty_def Let_def)

lemma sell_eth_Num:
  "sell_eth (Some (Num q)) s =
     (if q \<le> 0 then (Some Quantidade_invalida, s)
      else if f_gt (Num q) (f_add (balance_eth s) (Num (1 / 10 ^ 12)))
      then (Some Saldo_insuficiente, s)
      else (None, s\<lparr>balance_eth := f_sub (balance_eth s) (Num q),
                     balance_usd := f_add (balance_usd s) (Num (q * current_price s)),
                     order_msg := Vendido (Num q) (Num (q * current_price s))\<rparr>))"
  by (simp add: sell_eth_def parse_qty_def Let_def)

lemma buy_eth_rejected: "fst (buy_eth txt s) \<noteq> None \<Longrightarrow> snd (buy_eth txt s) = s"
  by (cases "txt") (auto simp: buy_eth_def parse_qty_def Let_def split: if_splits)

lemma sell_eth_rejected: "fst (sell_eth txt s) \<noteq> None \<Longrightarrow> snd (sell_eth txt s) = s"
  by (cases "txt") (auto simp: sell_eth_def parse_qty_def Let_def split: if_splits)










lemma init_state_fields:
  "balance_usd init_state = Num 10000" "balance_eth init_state = Num 0"
  "current_price init_state = 3500" "candles init_state = []"
  by (simp_all add: init_state_def INITIAL_USD_def INITIAL_ETH_def)

lemma buy_eth_Num_accepted:
  assumes "fst (buy_eth (Some (Num q)) s) = None"
  shows "0 < q"
    and "buy_eth (Some (Num q)) s =
       (None, s\<lparr>balance_usd := f_sub (balance_usd s) (Num (q * current_price s)),
                 balance_eth := f_add (balance_eth s) (Num q),
                 order_msg := Comprado (Num q) (Num (q * current_price s))\<rparr>)"
  using assms by (simp_all add: buy_eth_Num split: if_splits)

lemma sell_eth_Num_accepted:
  assumes "fst (sell_eth (Some (Num q)) s) = None"
  shows "0 < q"
    and "sell_eth (Some (Num q)) s =
       (None, s\<lparr>balance_eth := f_sub (balance_eth s) (Num q),
                 balance_usd := f_add (balance_usd s) (Num (q * current_price s)),
                 order_msg := Vendido (Num q) (Num (q * current_price s))\<rparr>)"
  using assms by (simp_all add: sell_eth_Num split: if_splits)

text \<open>
  The quantity \<^verbatim>\<open>nan\<close> passes both tests of \<^verbatim>\<open>_parse_qty\<close> and of the trade, every
  comparison with it being false: the trade is accepted and both balances become
  \<^verbatim>\<open>nan\<close>.
\<close>

lemma nan_quantity_accepted:
  "buy_eth (Some NaN) s =
     (None, s\<lparr>balance_usd := NaN, balance_eth := NaN, order_msg := Comprado NaN NaN\<rparr>)"
  "sell_eth (Some NaN) s =
     (None, s\<lparr>balance_eth := NaN, balance_usd := NaN, order_msg := Vendido NaN NaN\<rparr>)"
  by (simp_all add: buy_eth_def sell_eth_def parse_qty_def Let_def f_sub_def f_add_NaN)





text \<open>
  C8. From 10000 USD and 0 ETH at the price 3500, buying 0.1 ETH is accepted and leaves
  9650 USD and 0.1 ETH; selling 0.1 ETH right after, at the same price, is accepted and
  leaves 10000 USD and 0 ETH. For every quantity, an accepted buy followed by an
  accepted sell of the same quantity, the price unchanged, gives back the two balances;
  the sell is accepted whenever the ETH balance before the buy was at least
  \<open>- 10\<^sup>-\<^sup>1\<^sup>2\<close>.
\<close>

theorem round_trip:
  "(balance_usd s = Num 10000 \<and> balance_eth s = Num 0 \<and> current_price s = 3500 \<longrightarrow>
      (let s1 = snd (buy_eth (Some (Num (1 / 10))) s);
           s2 = snd (sell_eth (Some (Num (1 / 10))) s1)
       in fst (buy_eth (Some (Num (1 / 10))) s) = None
          \<and> balance_usd s1 = Num 9650 \<and> balance_eth s1 = Num (1 / 10)
          \<and> current_price s1 = 3500
          \<and> fst (sell_eth (Some (Num (1 / 10))) s1) = None
          \<and> balance_usd s2 = Num 10000 \<and> balance_eth s2 = Num 0))
   \<and> (fst (buy_eth (Some (Num q)) t) = None
        \<and> fst (sell_eth (Some (Num q)) (snd (buy_eth (Some (Num q)) t))) = None \<longrightarrow>
      balance_usd (snd (sell_eth (Some (Num q)) (snd (buy_eth (Some (Num q)) t)))) = balance_usd t
      \<and> balance_eth (snd (sell_eth (Some (Num q)) (snd (buy_eth (Some (Num q)) t)))) = balance_eth t)
   \<and> (fst (buy_eth (Some (Num q)) t) = None \<and> f_le (Num (- (1 / 10 ^ 12))) (balance_eth t) \<longrightarrow>
      fst (sell_eth (Some (Num q)) (snd (buy_eth (Some (Num q)) t))) = None)"
proof (intro conjI impI)
  assume "balance_usd s = Num 10000 \<and> balance_eth s = Num 0 \<and> current_price s = 3500"
  then show "let s1 = snd (buy_eth (Some (Num (1 / 10))) s);
           s2 = snd (sell_eth (Some (Num (1 / 10))) s1)
       in fst (buy_eth (Some (Num (1 / 10))) s) = None
          \<and> balance_usd s1 = Num 9650 \<and> balance_eth s1 = Num (1 / 10)
          \<and> current_price s1 = 3500
          \<and> fst (sell_eth (Some (Num (1 / 10))) s1) = None
          \<and> balance_usd s2 = Num 10000 \<and> balance_eth s2 = Num 0"
    by (simp add: buy_eth_Num sell_eth_Num Let_def f_sub_Num)
next
  assume a: "fst (buy_eth (Some (Num q)) t) = None
        \<and> fst (sell_eth (Some (Num q)) (snd (buy_eth (Some (Num q)) t))) = None"
  let ?t1 = "snd (buy_eth (Some (Num q)) t)"
  from a have b: "balance_usd ?t1 = f_sub (balance_usd t) (Num (q * current_price t))"
      "balance_eth ?t1 = f_add (balance_eth t) (Num q)" "current_price ?t1 = current_price t"
    using buy_eth_Num_accepted(2) [of q t] by simp_all
  from a have s: "balance_usd (snd (sell_eth (Some (Num q)) ?t1))
        = f_add (balance_usd ?t1) (Num (q * current_price ?t1))"
      "balance_eth (snd (sell_eth (Some (Num q)) ?t1)) = f_sub (balance_eth ?t1) (Num q)"
    using sell_eth_Num_accepted(2) [of q ?t1] by simp_all
  show "balance_usd (snd (sell_eth (Some (Num q)) ?t1)) = balance_usd t"
    unfolding s b by (rule f_add_sub_cancel)
  show "balance_eth (snd (sell_eth (Some (Num q)) ?t1)) = balance_eth t"
    unfolding s b by (rule f_sub_add_cancel)
next
  assume a: "fst (buy_eth (Some (Num q)) t) = None \<and> f_le (Num (- (1 / 10 ^ 12))) (balance_eth t)"
  let ?t1 = "snd (buy_eth (Some (Num q)) t)"
  from a have q: "0 < q" and b: "balance_eth ?t1 = f_add (balance_eth t) (Num q)"
    using buy_eth_Num_accepted [of q t] by simp_all
  from a have "\<not> f_gt (Num q) (f_add (f_add (balance_eth t) (Num q)) (Num (1 / 10 ^ 12)))"
    by (cases "balance_eth t") simp_all
  with q show "fst (sell_eth (Some (Num q)) ?t1) = None"
    by (simp add: sell_eth_Num b)
qed

theorem round_trip_witness:
  "balance_usd init_state = Num 10000 \<and> balance_eth init_state = Num 0
   \<and> current_price init_state = 3500
   \<and> fst (buy_eth (Some (Num (1 / 10))) init_state) = None
   \<and> balance_usd (snd (buy_eth (Some (Num (1 / 10))) init_state)) = Num 9650
   \<and> balance_eth (snd (buy_eth (Some (Num (1 / 10))) init_state)) = Num (1 / 10)
   \<and> fst (sell_eth (Some (Num (1 / 10))) (snd (buy_eth (Some (Num (1 / 10))) init_state))) = None
   \<and> balance_usd (snd (sell_eth (Some (Num (1 / 10)))
        (snd (buy_eth (Some (Num (1 / 10))) init_state)))) = Num 10000
   \<and> balance_eth (snd (sell_eth (Some (Num (1 / 10)))
        (snd (buy_eth (Some (Num (1 / 10))) init_state)))) = Num 0"
proof -
  have h: "balance_usd init_state = Num 10000 \<and> balance_eth init_state = Num 0
      \<and> current_price init_state = 3500"
    by (simp add: init_state_fields)
  from round_trip [of init_state "1 / 10" init_state] h show ?thesis
    by (simp add: Let_def)
qed

text \<open>
  C9. With 10000 USD at the price 3500, a buy of 100 ETH shows the message box
  \<^verbatim>\<open>Saldo insuficiente\<close> and returns the state it was given. Every buy and every sell
  that shows a message box returns the state it was given, and a quantity that is no
  number or is not positive shows the message box for an invalid quantity.
\<close>

theorem rejected_trade_no_change:
  "(balance_usd s = Num 10000 \<and> current_price s = 3500 \<longrightarrow>
      buy_eth (Some (Num 100)) s = (Some Saldo_insuficiente, s))
   \<and> (fst (buy_eth txt t) \<noteq> None \<longrightarrow> snd (buy_eth txt t) = t)
   \<and> (fst (sell_eth txt t) \<noteq> None \<longrightarrow> snd (sell_eth txt t) = t)
   \<and> (txt = None \<or> (\<exists>q. txt = Some q \<and> f_le q (Num 0)) \<longrightarrow>
        buy_eth txt t = (Some Quantidade_invalida, t)
        \<and> sell_eth txt t = (Some Quantidade_invalida, t))"
proof (intro conjI impI)
  assume "balance_usd s = Num 10000 \<and> current_price s = 3500"
  then show "buy_eth (Some (Num 100)) s = (Some Saldo_insuficiente, s)"
    by (simp add: buy_eth_Num)
next
  assume "fst (buy_eth txt t) \<noteq> None"
  then show "snd (buy_eth txt t) = t" by (rule buy_eth_rejected)
next
  assume "fst (sell_eth txt t) \<noteq> None"
  then show "snd (sell_eth txt t) = t" by (rule sell_eth_rejected)
next
  assume a: "txt = None \<or> (\<exists>q. txt = Some q \<and> f_le q (Num 0))"
  then show "buy_eth txt t = (Some Quantidade_invalida, t)"
    by (auto simp: buy_eth_def parse_qty_def Let_def)
  from a show "sell_eth txt t = (Some Quantidade_invalida, t)"
    by (auto simp: sell_eth_def parse_qty_def Let_def)
qed

theorem rejected_trade_no_change_witness:
  "balance_usd init_state = Num 10000 \<and> current_price init_state = 3500
   \<and> buy_eth (Some (Num 100)) init_state = (Some Saldo_insuficiente, init_state)
   \<and> fst (sell_eth (Some (Num 1)) init_state) \<noteq> None
   \<and> snd (sell_eth (Some (Num 1)) init_state) = init_state
   \<and> buy_eth None init_state = (Some Quantidade_invalida, init_state)"
proof -
  have h: "balance_usd init_state = Num 10000 \<and> current_price init_state = 3500"
    by (simp add: init_state_fields)
  have r: "fst (sell_eth (Some (Num 1)) init_state) \<noteq> None"
    by (simp add: sell_eth_Num init_state_fields)
  from rejected_trade_no_change [of init_state "Some (Num 1)" init_state] h r
  have "buy_eth (Some (Num 100)) init_state = (Some Saldo_insuficiente, init_state)"
    and "snd (sell_eth (Some (Num 1)) init_state) = init_state" by blast+
  moreover from rejected_trade_no_change [of init_state None init_state]
  have "buy_eth None init_state = (Some Quantidade_invalida, init_state)" by blast
  ultimately show ?thesis using h r by blast
qed

lemma equity_transfer:
  "f_add (f_sub u (Num (q * p))) (f_mul (f_add e (Num q)) (Num p)) = f_add u (f_mul e (Num p))"
  "f_add (f_add u (Num (q * p))) (f_mul (f_sub e (Num q)) (Num p)) = f_add u (f_mul e (Num p))"
  by (cases u; cases e; simp add: f_sub_def algebra_simps)+

text \<open>
  C10. An accepted buy of \<open>q\<close> at the price \<open>p\<close> takes \<open>q * p\<close> from the USD balance
  and adds \<open>q\<close> to the ETH balance, an accepted sell does the reverse, the price is
  unchanged, and \<open>balance_usd + balance_eth * p\<close> is the same before and after.
\<close>

theorem equity_preserved:
  "(fst (buy_eth (Some (Num q)) s) = None \<longrightarrow>
      balance_usd (snd (buy_eth (Some (Num q)) s))
        = f_sub (balance_usd s) (Num (q * current_price s))
      \<and> balance_eth (snd (buy_eth (Some (Num q)) s)) = f_add (balance_eth s) (Num q)
      \<and> current_price (snd (buy_eth (Some (Num q)) s)) = current_price s
      \<and> equity_usd (snd (buy_eth (Some (Num q)) s)) = equity_usd s)
   \<and> (fst (sell_eth (Some (Num q)) s) = None \<longrightarrow>
      balance_usd (snd (sell_eth (Some (Num q)) s))
        = f_add (balance_usd s) (Num (q * current_price s))
      \<and> balance_eth (snd (sell_eth (Some (Num q)) s)) = f_sub (balance_eth s) (Num q)
      \<and> current_price (snd (sell_eth (Some (Num q)) s)) = current_price s
      \<and> equity_usd (snd (sell_eth (Some (Num q)) s)) = equity_usd s)"
proof (intro conjI impI)
  assume "fst (buy_eth (Some (Num q)) s) = None"
  then have b: "buy_eth (Some (Num q)) s =
       (None, s\<lparr>balance_usd := f_sub (balance_usd s) (Num (q * current_price s)),
                 balance_eth := f_add (balance_eth s) (Num q),
                 order_msg := Comprado (Num q) (Num (q * current_price s))\<rparr>)"
    by (rule buy_eth_Num_accepted(2))
  show "balance_usd (snd (buy_eth (Some (Num q)) s))
        = f_sub (balance_usd s) (Num (q * current_price s))"
    and "balance_eth (snd (buy_eth (Some (Num q)) s)) = f_add (balance_eth s) (Num q)"
    and "current_price (snd (buy_eth (Some (Num q)) s)) = current_price s"
    unfolding b by simp_all
  show "equity_usd (snd (buy_eth (Some (Num q)) s)) = equity_usd s"
    unfolding b by (simp add: equity_usd_def equity_transfer)
next
  assume "fst (sell_eth (Some (Num q)) s) = None"
  then have b: "sell_eth (Some (Num q)) s =
       (None, s\<lparr>balance_eth := f_sub (balance_eth s) (Num q),
                 balance_usd := f_add (balance_usd s) (Num (q * current_price s)),
                 order_msg := Vendido (Num q) (Num (q * current_price s))\<rparr>)"
    by (rule sell_eth_Num_accepted(2))
  show "balance_usd (snd (sell_eth (Some (Num q)) s))
        = f_add (balance_usd s) (Num (q * current_price s))"
    and "balance_eth (snd (sell_eth (Some (Num q)) s)) = f_sub (balance_eth s) (Num q)"
    and "current_price (snd (sell_eth (Some (Num q)) s)) = current_price s"
    unfolding b by simp_all
  show "equity_usd (snd (sell_eth (Some (Num q)) s)) = equity_usd s"
    unfolding b by (simp add: equity_usd_def equity_transfer)
qed

theorem equity_preserved_witness:
  "fst (buy_eth (Some (Num 2)) init_state) = None
   \<and> equity_usd init_state = Num 10000
   \<and> balance_usd (snd (buy_eth (Some (Num 2)) init_state)) = Num 3000
   \<and> balance_eth (snd (buy_eth (Some (Num 2)) init_state)) = Num 2
   \<and> equity_usd (snd (buy_eth (Some (Num 2)) init_state)) = Num 10000
   \<and> fst (sell_eth (Some (Num 1)) (snd (buy_eth (Some (Num 2)) init_state))) = None
   \<and> equity_usd (snd (sell_eth (Some (Num 1)) (snd (buy_eth (Some (Num 2)) init_state)))) = Num 10000"
proof -
  have b: "fst (buy_eth (Some (Num 2)) init_state) = None"
    by (simp add: buy_eth_Num init_state_fields)
  have e: "equity_usd init_state = Num 10000"
    by (simp add: equity_usd_def init_state_fields)
  from equity_preserved [of 2 init_state] b
  have b': "balance_usd (snd (buy_eth (Some (Num 2)) init_state)) = Num 3000"
    "balance_eth (snd (buy_eth (Some (Num 2)) init_state)) = Num 2"
    "equity_usd (snd (buy_eth (Some (Num 2)) init_state)) = Num 10000"
    by (simp_all add: init_state_fields e f_sub_Num)
  then have s: "fst (sell_eth (Some (Num 1)) (snd (buy_eth (Some (Num 2)) init_state))) = None"
    by (simp add: sell_eth_Num)
  from equity_preserved [of 1 "snd (buy_eth (Some (Num 2)) init_state)"] s b'(3)
  have "equity_usd (snd (sell_eth (Some (Num 1)) (snd (buy_eth (Some (Num 2)) init_state)))) = Num 10000"
    by simp
  with b e b' s show ?thesis by blast
qed

end
